theory Spec2Isabelle
  imports Main
begin

section \<open>The page and its connection handle\<close>

text \<open>
  The module \<^verbatim>\<open>src/js/bfcache-manager.js\<close> is one closure with a single mutable variable,
  \<^verbatim>\<open>appSocket\<close>, four event listeners and two helpers. Everything a listener does besides
  updating \<^verbatim>\<open>appSocket\<close> is a call into the platform: \<^verbatim>\<open>console.log\<close> and the socket's
  \<^verbatim>\<open>close()\<close>. The model keeps the variable and the ordered list of those calls.
\<close>

text \<open>The four values of \<^verbatim>\<open>WebSocket.readyState\<close>; \<^verbatim>\<open>WebSocket.OPEN\<close> is the second.\<close>

datatype ready_state = CONNECTING | OPEN | CLOSING | CLOSED

text \<open>
  A socket object as the module sees it: its identity, and the \<^verbatim>\<open>readyState\<close> it shows when
  the listener reads it.
\<close>

record WebSocket =
  ident :: nat
  readyState :: ready_state

text \<open>The event object of \<^verbatim>\<open>pageshow\<close> and \<^verbatim>\<open>pagehide\<close>; only \<^verbatim>\<open>persisted\<close> is read.\<close>

record PageTransitionEvent =
  persisted :: bool

text \<open>Arguments of \<^verbatim>\<open>console.log\<close>: the module passes string literals and one boolean.\<close>

datatype js_val = Str string | Bool bool

text \<open>
  The calls a listener can make on the platform. \<open>SocketNew\<close> stands for
  \<^verbatim>\<open>new WebSocket(url)\<close>: the only construction in the file (line 42) is commented out, so
  no definition below produces it; it is here so that the number of constructions can be
  counted.
\<close>

datatype effect =
    ConsoleLog "js_val list"
  | SocketClose WebSocket
  | SocketNew string

text \<open>The only exception a listener could raise by itself: a member access on \<^verbatim>\<open>null\<close>.\<close>

datatype error = TypeError

record bridge =
  appSocket :: "WebSocket option"
  effects :: "effect list"

text \<open>
  A piece of listener code runs on the state and either completes with a value or throws;
  the state reached is kept in both cases, since an exception leaves the closure's
  variable as it was when it was raised.
\<close>

type_synonym 'a js = "bridge \<Rightarrow> (error + 'a) \<times> bridge"

definition return_js :: "'a \<Rightarrow> 'a js" where
  "return_js x = (\<lambda>s. (Inr x, s))"

definition throw_js :: "error \<Rightarrow> 'a js" where
  "throw_js e = (\<lambda>s. (Inl e, s))"

definition bind_js :: "'a js \<Rightarrow> ('a \<Rightarrow> 'b js) \<Rightarrow> 'b js" where
  "bind_js m k = (\<lambda>s. case m s of
       (Inl e, s') \<Rightarrow> (Inl e, s')
     | (Inr x, s') \<Rightarrow> k x s')"

definition then_js :: "unit js \<Rightarrow> 'b js \<Rightarrow> 'b js" where
  "then_js m k = bind_js m (\<lambda>_. k)"

subsection \<open>Primitive statements\<close>

definition console_log :: "js_val list \<Rightarrow> unit js" where
  "console_log args = (\<lambda>s. (Inr (), s\<lparr>effects := effects s @ [ConsoleLog args]\<rparr>))"

definition get_appSocket :: "WebSocket option js" where
  "get_appSocket = (\<lambda>s. (Inr (appSocket s), s))"

definition set_appSocket :: "WebSocket option \<Rightarrow> unit js" where
  "set_appSocket v = (\<lambda>s. (Inr (), s\<lparr>appSocket := v\<rparr>))"

text \<open>\<^verbatim>\<open>r.readyState\<close> for a reference \<open>r\<close> that may be \<^verbatim>\<open>null\<close>.\<close>

definition read_readyState :: "WebSocket option \<Rightarrow> ready_state js" where
  "read_readyState r = (case r of
       None \<Rightarrow> throw_js TypeError
     | Some h \<Rightarrow> return_js (readyState h))"

text \<open>
  \<^verbatim>\<open>r.close()\<close> for a reference \<open>r\<close> that may be \<^verbatim>\<open>null\<close>. On a socket the call is
  recorded; \<^verbatim>\<open>close\<close> without arguments raises nothing.
\<close>

definition call_close :: "WebSocket option \<Rightarrow> unit js" where
  "call_close r = (case r of
       None \<Rightarrow> throw_js TypeError
     | Some h \<Rightarrow> (\<lambda>s. (Inr (), s\<lparr>effects := effects s @ [SocketClose h]\<rparr>)))"

subsection \<open>The module's functions\<close>

text \<open>
  \<^verbatim>\<open>connectWebSocket\<close> (lines 29 to 56). The condition is
  \<^verbatim>\<open>appSocket && appSocket.readyState === WebSocket.OPEN\<close>, whose right operand is evaluated
  only for a non-null \<^verbatim>\<open>appSocket\<close>. After the second \<^verbatim>\<open>console.log\<close> the body has
  comments only.
\<close>

definition connectWebSocket :: "unit js" where
  "connectWebSocket =
     bind_js get_appSocket (\<lambda>a.
     bind_js (if a \<noteq> None
              then bind_js (read_readyState a) (\<lambda>r. return_js (r = OPEN))
              else return_js False) (\<lambda>already.
     if already
     then console_log [Str ''[bfcache-manager] WebSocket already open.'']
     else console_log [Str ''[bfcache-manager] Connecting WebSocket...'']))"

text \<open>\<^verbatim>\<open>closeWebSocket\<close> (lines 62 to 68).\<close>

definition closeWebSocket :: "unit js" where
  "closeWebSocket =
     bind_js get_appSocket (\<lambda>a.
     if a \<noteq> None
     then then_js (console_log [Str ''[bfcache-manager] Closing WebSocket for page suspension...''])
         (then_js (call_close a)
                  (set_appSocket None))
     else return_js ())"

text \<open>\<^verbatim>\<open>onPageShow\<close> (lines 76 to 86).\<close>

definition onPageShow :: "PageTransitionEvent \<Rightarrow> unit js" where
  "onPageShow event =
     then_js (if persisted event
              then console_log [Str ''[bfcache-manager] Page restored from bfcache.'']
              else console_log [Str ''[bfcache-manager] Page loaded normally.''])
             connectWebSocket"

text \<open>\<^verbatim>\<open>onPageHide\<close> (lines 94 to 102).\<close>

definition onPageHide :: "PageTransitionEvent \<Rightarrow> unit js" where
  "onPageHide event =
     then_js (console_log [Str ''[bfcache-manager] Page hiding. Persisted:'', Bool (persisted event)])
             closeWebSocket"

text \<open>\<^verbatim>\<open>onFreeze\<close> (lines 109 to 112) and \<^verbatim>\<open>onResume\<close> (lines 119 to 122).\<close>

definition onFreeze :: "unit js" where
  "onFreeze = then_js (console_log [Str ''[bfcache-manager] Page freezing.'']) closeWebSocket"

definition onResume :: "unit js" where
  "onResume = then_js (console_log [Str ''[bfcache-manager] Page resuming.'']) connectWebSocket"

subsection \<open>Loading the module and delivering events\<close>

text \<open>
  Running the file's top-level function (lines 18 to 135) sets \<^verbatim>\<open>appSocket\<close> to
  \<^verbatim>\<open>null\<close>, registers the four listeners and logs one line.
\<close>

definition init :: bridge where
  "init = \<lparr>appSocket = None,
           effects = [ConsoleLog [Str ''[bfcache-manager] Initialized with Page Lifecycle API support.'']]\<rparr>"

text \<open>The lifecycle signals, and the listener registered for each (lines 126 to 131).\<close>

datatype signal =
    Pageshow PageTransitionEvent
  | Pagehide PageTransitionEvent
  | Freeze
  | Resume

fun dispatch :: "signal \<Rightarrow> unit js" where
  "dispatch (Pageshow event) = onPageShow event"
| "dispatch (Pagehide event) = onPageHide event"
| "dispatch Freeze = onFreeze"
| "dispatch Resume = onResume"

text \<open>
  The page delivers signals one at a time. An exception that escapes a listener is reported
  and the next signal is still delivered, on the state the failed listener left; \<open>run\<close>
  returns the exceptions reported, in order, and the final state.
\<close>

fun run :: "signal list \<Rightarrow> bridge \<Rightarrow> error list \<times> bridge" where
  "run [] s = ([], s)"
| "run (g # gs) s = (case dispatch g s of
       (Inl e, s') \<Rightarrow> (case run gs s' of (es, s'') \<Rightarrow> (e # es, s''))
     | (Inr u, s') \<Rightarrow> run gs s')"

definition final :: "signal list \<Rightarrow> bridge \<Rightarrow> bridge" where
  "final gs s = snd (run gs s)"

subsection \<open>What is observed\<close>

text \<open>The sockets on which \<^verbatim>\<open>close()\<close> was called, and the URLs constructed, in order.\<close>

fun close_calls :: "effect list \<Rightarrow> WebSocket list" where
  "close_calls [] = []"
| "close_calls (SocketClose h # t) = h # close_calls t"
| "close_calls (ConsoleLog a # t) = close_calls t"
| "close_calls (SocketNew u # t) = close_calls t"

fun open_calls :: "effect list \<Rightarrow> string list" where
  "open_calls [] = []"
| "open_calls (SocketNew u # t) = u # open_calls t"
| "open_calls (ConsoleLog a # t) = open_calls t"
| "open_calls (SocketClose h # t) = open_calls t"

text \<open>The calls made on the connection, console output left out.\<close>

fun socket_calls :: "effect list \<Rightarrow> effect list" where
  "socket_calls [] = []"
| "socket_calls (ConsoleLog a # t) = socket_calls t"
| "socket_calls (SocketClose h # t) = SocketClose h # socket_calls t"
| "socket_calls (SocketNew u # t) = SocketNew u # socket_calls t"

text \<open>The handles the bridge holds, and those of them that are open.\<close>

definition live_handles :: "bridge \<Rightarrow> WebSocket list" where
  "live_handles s = (case appSocket s of None \<Rightarrow> [] | Some h \<Rightarrow> [h])"

definition open_handles :: "bridge \<Rightarrow> WebSocket list" where
  "open_handles s = filter (\<lambda>h. readyState h = OPEN) (live_handles s)"

text \<open>The calls that delivering \<open>gs\<close> from \<open>s\<close> adds to those already made.\<close>

definition produced :: "signal list \<Rightarrow> bridge \<Rightarrow> effect list" where
  "produced gs s = drop (length (effects s)) (effects (final gs s))"

section \<open>Closed forms of the functions\<close>

lemma close_calls_append: "close_calls (t @ u) = close_calls t @ close_calls u"
  by (induction t rule: close_calls.induct) simp_all

lemma open_calls_append: "open_calls (t @ u) = open_calls t @ open_calls u"
  by (induction t rule: open_calls.induct) simp_all

lemma socket_calls_append: "socket_calls (t @ u) = socket_calls t @ socket_calls u"
  by (induction t rule: socket_calls.induct) simp_all

lemma connectWebSocket_eq:
  "connectWebSocket s =
     (Inr (), s\<lparr>effects := effects s @
        [ConsoleLog [Str (case appSocket s of
             None \<Rightarrow> ''[bfcache-manager] Connecting WebSocket...''
           | Some h \<Rightarrow> if readyState h = OPEN
                       then ''[bfcache-manager] WebSocket already open.''
                       else ''[bfcache-manager] Connecting WebSocket...'')]]\<rparr>)"
  by (cases "appSocket s")
     (simp_all add: connectWebSocket_def bind_js_def get_appSocket_def return_js_def
        read_readyState_def console_log_def)

lemma closeWebSocket_eq:
  "closeWebSocket s =
     (Inr (), case appSocket s of
         None \<Rightarrow> s
       | Some h \<Rightarrow> s\<lparr>appSocket := None,
                     effects := effects s @
                       [ConsoleLog [Str ''[bfcache-manager] Closing WebSocket for page suspension...''],
                        SocketClose h]\<rparr>)"
  by (cases "appSocket s")
     (simp_all add: closeWebSocket_def bind_js_def then_js_def get_appSocket_def return_js_def
        call_close_def console_log_def set_appSocket_def)

lemma onPageShow_eq:
  "onPageShow event s =
     connectWebSocket (s\<lparr>effects := effects s @
        [ConsoleLog [Str (if persisted event
                          then ''[bfcache-manager] Page restored from bfcache.''
                          else ''[bfcache-manager] Page loaded normally.'')]]\<rparr>)"
  by (simp add: onPageShow_def then_js_def bind_js_def console_log_def)

lemma onResume_eq:
  "onResume s =
     connectWebSocket (s\<lparr>effects := effects s @
        [ConsoleLog [Str ''[bfcache-manager] Page resuming.'']]\<rparr>)"
  by (simp add: onResume_def then_js_def bind_js_def console_log_def)

lemma onPageHide_eq:
  "onPageHide event s =
     closeWebSocket (s\<lparr>effects := effects s @
        [ConsoleLog [Str ''[bfcache-manager] Page hiding. Persisted:'', Bool (persisted event)]]\<rparr>)"
  by (simp add: onPageHide_def then_js_def bind_js_def console_log_def)

lemma onFreeze_eq:
  "onFreeze s =
     closeWebSocket (s\<lparr>effects := effects s @
        [ConsoleLog [Str ''[bfcache-manager] Page freezing.'']]\<rparr>)"
  by (simp add: onFreeze_def then_js_def bind_js_def console_log_def)

lemmas handler_eqs =
  onPageShow_eq onResume_eq onPageHide_eq onFreeze_eq connectWebSocket_eq closeWebSocket_eq

section \<open>Delivering signals\<close>

lemma dispatch_returns: "fst (dispatch g s) = Inr ()"
  by (cases g) (simp_all add: handler_eqs)

lemma dispatch_appSocket:
  "appSocket (snd (dispatch g s)) =
     (case g of Pageshow e \<Rightarrow> appSocket s | Resume \<Rightarrow> appSocket s
              | Pagehide e \<Rightarrow> None | Freeze \<Rightarrow> None)"
  by (cases g) (simp_all add: handler_eqs split: option.split)

lemma dispatch_effects:
  "\<exists>t. effects (snd (dispatch g s)) = effects s @ t \<and> open_calls t = []
       \<and> close_calls t = (case g of Pageshow e \<Rightarrow> [] | Resume \<Rightarrow> []
                                   | Pagehide e \<Rightarrow> live_handles s | Freeze \<Rightarrow> live_handles s)"
  by (cases g) (simp_all add: handler_eqs live_handles_def split: option.split)

lemma run_step: "run (g # gs) s = run gs (snd (dispatch g s))"
  using dispatch_returns [of g s] by (cases "dispatch g s") simp

lemma final_Nil: "final [] s = s"
  by (simp add: final_def)

lemma final_Cons: "final (g # gs) s = final gs (snd (dispatch g s))"
  by (simp only: final_def run_step)

lemma final_append: "final (gs @ hs) s = final hs (final gs s)"
  by (induction gs arbitrary: s) (simp_all add: final_Nil final_Cons)

lemma run_no_errors: "fst (run gs s) = []"
  by (induction gs arbitrary: s) (simp_all add: run_step del: run.simps(2))

lemma final_appSocket_None: "appSocket s = None \<Longrightarrow> appSocket (final gs s) = None"
  by (induction gs arbitrary: s)
     (simp_all add: final_Nil final_Cons dispatch_appSocket split: signal.split)

lemma final_appSocket_cases:
  "appSocket (final gs s) = None \<or> appSocket (final gs s) = appSocket s"
proof (induction gs arbitrary: s)
  case Nil
  show ?case by (simp add: final_Nil)
next
  case (Cons g gs)
  show ?case
  proof (cases "appSocket (snd (dispatch g s)) = None")
    case True
    then show ?thesis by (simp add: final_Cons final_appSocket_None)
  next
    case False
    then have "appSocket (snd (dispatch g s)) = appSocket s"
      by (cases g) (simp_all add: dispatch_appSocket del: dispatch.simps)
    with Cons.IH [of "snd (dispatch g s)"] show ?thesis
      by (simp add: final_Cons)
  qed
qed

lemma final_effects:
  "\<exists>t. effects (final gs s) = effects s @ t \<and> open_calls t = []"
proof (induction gs arbitrary: s)
  case Nil
  show ?case by (simp add: final_Nil)
next
  case (Cons g gs)
  obtain t where t: "effects (snd (dispatch g s)) = effects s @ t" "open_calls t = []"
    using dispatch_effects [of g s] by blast
  obtain u where u: "effects (final gs (snd (dispatch g s))) = effects (snd (dispatch g s)) @ u"
      "open_calls u = []"
    using Cons.IH [of "snd (dispatch g s)"] by blast
  from t u have "effects (final (g # gs) s) = effects s @ (t @ u) \<and> open_calls (t @ u) = []"
    by (simp add: final_Cons open_calls_append)
  then show ?case by blast
qed

lemma effects_final: "effects (final gs s) = effects s @ produced gs s"
  using final_effects [of gs s] by (auto simp: produced_def)

lemma open_calls_produced: "open_calls (produced gs s) = []"
  using final_effects [of gs s] by (auto simp: produced_def)

lemma final_init_appSocket: "appSocket (final gs init) = None"
  by (rule final_appSocket_None) (simp add: init_def)

section \<open>The claims\<close>

text \<open>
  Claim C1, as stated: after a \<^verbatim>\<open>show\<close> or \<^verbatim>\<open>resume\<close> signal exactly one open connection
  handle exists. It fails right after the module is loaded: \<^verbatim>\<open>pageshow\<close> on a normal load
  leaves \<^verbatim>\<open>appSocket\<close> null, so the number of open handles is zero.
\<close>

theorem C1_counterexample:
  "length (open_handles (final [Pageshow \<lparr>persisted = False\<rparr>] init)) \<noteq> 1"
  by (simp add: final_Cons final_Nil handler_eqs init_def open_handles_def live_handles_def)

text \<open>
  Claim C1, amended: from every state \<^verbatim>\<open>onPageShow\<close> and \<^verbatim>\<open>onResume\<close> leave \<^verbatim>\<open>appSocket\<close>
  as they found it and make no call on the connection: no \<^verbatim>\<open>close()\<close>, no construction,
  console output only. So after every sequence of signals that ends with \<^verbatim>\<open>show\<close> or
  \<^verbatim>\<open>resume\<close> the handle is the one held just before that signal; on the freshly loaded
  module no open handle exists then.
\<close>

theorem show_resume_keep_handle:
  "appSocket (snd (onPageShow event s)) = appSocket s
   \<and> appSocket (snd (onResume s)) = appSocket s
   \<and> socket_calls (produced [Pageshow event] s) = []
   \<and> socket_calls (produced [Resume] s) = []
   \<and> close_calls (produced [Pageshow event] s) = []
   \<and> close_calls (produced [Resume] s) = []
   \<and> open_calls (produced [Pageshow event] s) = []
   \<and> open_calls (produced [Resume] s) = []
   \<and> appSocket (final (gs @ [Pageshow event]) s) = appSocket (final gs s)
   \<and> appSocket (final (gs @ [Resume]) s) = appSocket (final gs s)
   \<and> open_handles (final (gs @ [Pageshow event]) init) = []
   \<and> open_handles (final (gs @ [Resume]) init) = []"
proof -
  have "appSocket (final (gs @ [g]) init) = None" for g
    by (rule final_init_appSocket)
  then have a: "open_handles (final (gs @ [g]) init) = []" for g
    by (simp add: open_handles_def live_handles_def)
  have b: "socket_calls (produced [Pageshow event] s) = []"
      "socket_calls (produced [Resume] s) = []"
      "close_calls (produced [Pageshow event] s) = []"
      "close_calls (produced [Resume] s) = []"
    by (simp_all add: produced_def final_Cons final_Nil handler_eqs)
  have c: "appSocket (final (gs @ [Pageshow event]) s) = appSocket (final gs s)"
      "appSocket (final (gs @ [Resume]) s) = appSocket (final gs s)"
    by (simp_all add: final_append final_Cons final_Nil handler_eqs)
  from a b c show ?thesis
    by (simp add: handler_eqs open_calls_produced)
qed

text \<open>
  Claim C2: for every sequence of signals delivered to the loaded module \<^verbatim>\<open>appSocket\<close> is
  null and no \<^verbatim>\<open>WebSocket\<close> has been constructed; \<^verbatim>\<open>connectWebSocket\<close> never assigns the
  variable and constructs nothing, and \<^verbatim>\<open>closeWebSocket\<close> leaves it null and constructs
  nothing.
\<close>

theorem appSocket_stays_null:
  "appSocket (final gs init) = None
   \<and> open_calls (effects (final gs init)) = []
   \<and> appSocket (snd (connectWebSocket s)) = appSocket s
   \<and> open_calls (effects (snd (connectWebSocket s))) = open_calls (effects s)
   \<and> appSocket (snd (closeWebSocket s)) = None
   \<and> open_calls (effects (snd (closeWebSocket s))) = open_calls (effects s)"
proof -
  have "open_calls (effects (final gs init)) = open_calls (effects init)"
    by (simp add: effects_final open_calls_append open_calls_produced)
  then have "open_calls (effects (final gs init)) = []"
    by (simp add: init_def)
  then show ?thesis
    by (simp add: final_init_appSocket handler_eqs open_calls_append split: option.split)
qed

text \<open>
  Claim C3: from every state and after every sequence of signals that ends with \<^verbatim>\<open>hide\<close>
  or \<^verbatim>\<open>freeze\<close>, \<^verbatim>\<open>appSocket\<close> is null and no open handle exists; \<^verbatim>\<open>onPageHide\<close> and
  \<^verbatim>\<open>onFreeze\<close> call \<^verbatim>\<open>close()\<close> on the handle held, if there is one, and on nothing else.
\<close>

theorem hide_freeze_clear_handle:
  "appSocket (final (gs @ [Pagehide event]) s) = None
   \<and> appSocket (final (gs @ [Freeze]) s) = None
   \<and> open_handles (final (gs @ [Pagehide event]) s) = []
   \<and> open_handles (final (gs @ [Freeze]) s) = []
   \<and> appSocket (snd (onPageHide event s)) = None
   \<and> appSocket (snd (onFreeze s)) = None
   \<and> close_calls (effects (snd (onPageHide event s))) = close_calls (effects s) @ live_handles s
   \<and> close_calls (effects (snd (onFreeze s))) = close_calls (effects s) @ live_handles s"
proof -
  have a: "appSocket (snd (onPageHide event t)) = None" "appSocket (snd (onFreeze t)) = None" for t
    by (simp_all add: handler_eqs split: option.split)
  have b: "appSocket (final (gs @ [Pagehide event]) s) = None"
      "appSocket (final (gs @ [Freeze]) s) = None"
    by (simp_all add: final_append final_Cons final_Nil a)
  have c: "close_calls (effects (snd (onPageHide event s))) = close_calls (effects s) @ live_handles s"
      "close_calls (effects (snd (onFreeze s))) = close_calls (effects s) @ live_handles s"
    by (simp_all add: handler_eqs close_calls_append live_handles_def split: option.split)
  from a b c show ?thesis
    by (simp add: open_handles_def live_handles_def)
qed

text \<open>
  Claim C4, as stated: two consecutive \<^verbatim>\<open>show\<close> signals produce exactly one open/create
  call. On the freshly loaded module they produce none.
\<close>

theorem C4_counterexample:
  "length (open_calls (produced [Pageshow \<lparr>persisted = False\<rparr>, Pageshow \<lparr>persisted = False\<rparr>] init)) \<noteq> 1"
  by (simp add: open_calls_produced)

text \<open>
  Claim C4, amended: from every state, two consecutive \<^verbatim>\<open>show\<close> signals produce no
  open/create call and no other call on the connection, and leave \<^verbatim>\<open>appSocket\<close> unchanged;
  in particular the second \<^verbatim>\<open>show\<close> makes no call on the connection and does not touch the
  handle.
\<close>

theorem two_shows_open_nothing:
  "open_calls (produced [Pageshow e1, Pageshow e2] s) = []
   \<and> socket_calls (produced [Pageshow e1, Pageshow e2] s) = []
   \<and> appSocket (final [Pageshow e1, Pageshow e2] s) = appSocket s
   \<and> socket_calls (produced [Pageshow e2] (final [Pageshow e1] s)) = []
   \<and> appSocket (final [Pageshow e2] (final [Pageshow e1] s)) = appSocket (final [Pageshow e1] s)"
  by (simp add: produced_def final_Cons final_Nil handler_eqs)

text \<open>
  Claim C5: \<^verbatim>\<open>close()\<close> is called only on a handle that is held. Two consecutive
  \<^verbatim>\<open>hide\<close> signals call it once for the handle held before the first (and not at all when
  none is held): with a handle \<open>h\<close> held the calls are exactly \<open>[h]\<close>, all made by the
  first \<^verbatim>\<open>hide\<close>; the second \<^verbatim>\<open>hide\<close> makes no call on the connection and leaves the
  variable as it is. A \<^verbatim>\<open>freeze\<close> with no handle held makes no call on the connection.
\<close>

theorem two_hides_close_once:
  "close_calls (produced [Pagehide e1, Pagehide e2] s) = live_handles s
   \<and> close_calls (produced [Pagehide e1, Pagehide e2] (s\<lparr>appSocket := Some h\<rparr>)) = [h]
   \<and> close_calls (produced [Pagehide e1] (s\<lparr>appSocket := Some h\<rparr>)) = [h]
   \<and> socket_calls (produced [Pagehide e2] (final [Pagehide e1] s)) = []
   \<and> appSocket (final [Pagehide e2] (final [Pagehide e1] s)) = appSocket (final [Pagehide e1] s)
   \<and> close_calls (produced [Freeze] (s\<lparr>appSocket := None\<rparr>)) = []
   \<and> socket_calls (produced [Freeze] (s\<lparr>appSocket := None\<rparr>)) = []"
  by (simp add: produced_def final_Cons final_Nil handler_eqs live_handles_def split: option.split)

text \<open>
  Claim C5 on a held open socket, and \<^verbatim>\<open>freeze\<close> on a state with none.
\<close>

theorem two_hides_close_once_witness:
  "close_calls (produced [Pagehide \<lparr>persisted = False\<rparr>, Pagehide \<lparr>persisted = True\<rparr>]
       \<lparr>appSocket = Some \<lparr>ident = 7, readyState = OPEN\<rparr>, effects = []\<rparr>)
     = [\<lparr>ident = 7, readyState = OPEN\<rparr>]
   \<and> close_calls (produced [Freeze] \<lparr>appSocket = None, effects = []\<rparr>) = []"
  using two_hides_close_once [of "\<lparr>persisted = False\<rparr>" "\<lparr>persisted = True\<rparr>"
      "\<lparr>appSocket = None, effects = []\<rparr>" "\<lparr>ident = 7, readyState = OPEN\<rparr>"]
  by simp

text \<open>
  Claim C6: from every state \<^verbatim>\<open>onFreeze\<close> and \<^verbatim>\<open>onPageHide\<close> complete alike, leave the
  same \<^verbatim>\<open>appSocket\<close> and make the same calls on the connection.
\<close>

theorem freeze_same_as_hide:
  "fst (onFreeze s) = fst (onPageHide event s)
   \<and> appSocket (snd (onFreeze s)) = appSocket (snd (onPageHide event s))
   \<and> socket_calls (effects (snd (onFreeze s))) = socket_calls (effects (snd (onPageHide event s)))
   \<and> socket_calls (produced [Freeze] s) = socket_calls (produced [Pagehide event] s)"
  by (simp add: produced_def final_Cons final_Nil handler_eqs socket_calls_append split: option.split)

text \<open>
  Claim C7: from every state \<^verbatim>\<open>onResume\<close> and \<^verbatim>\<open>onPageShow\<close> with
  \<^verbatim>\<open>persisted = false\<close> complete alike, leave the same \<^verbatim>\<open>appSocket\<close> and make the same
  calls on the connection, the same open calls in particular.
\<close>

theorem resume_same_as_show_false:
  "fst (onResume s) = fst (onPageShow \<lparr>persisted = False\<rparr> s)
   \<and> appSocket (snd (onResume s)) = appSocket (snd (onPageShow \<lparr>persisted = False\<rparr> s))
   \<and> socket_calls (effects (snd (onResume s)))
       = socket_calls (effects (snd (onPageShow \<lparr>persisted = False\<rparr> s)))
   \<and> open_calls (produced [Resume] s) = open_calls (produced [Pageshow \<lparr>persisted = False\<rparr>] s)"
  by (simp add: produced_def final_Cons final_Nil handler_eqs socket_calls_append)

text \<open>
  Claim C8: from every state, reachable or not, each of the four listeners completes
  without throwing, and so does the listener of every signal; delivering any sequence of
  signals reports no exception. The member accesses on \<^verbatim>\<open>appSocket\<close> that could throw are
  all behind a null check.
\<close>

theorem handlers_never_throw:
  "fst (onPageShow event s) = Inr ()
   \<and> fst (onPageHide event s) = Inr ()
   \<and> fst (onFreeze s) = Inr ()
   \<and> fst (onResume s) = Inr ()
   \<and> fst (dispatch g s) = Inr ()
   \<and> fst (run gs s) = []"
  by (simp add: handler_eqs dispatch_returns run_no_errors)

text \<open>
  Claim C9: after every sequence of signals, from every state, the bridge holds at most one
  handle, hence at most one open handle; the handle held is the one held at the start or
  none, so no second handle ever appears; the loaded module holds none.
\<close>

theorem at_most_one_handle:
  "length (live_handles (final gs s)) \<le> 1
   \<and> length (open_handles (final gs s)) \<le> 1
   \<and> (appSocket (final gs s) = None \<or> appSocket (final gs s) = appSocket s)
   \<and> live_handles (final gs init) = []"
proof -
  have "length (live_handles t) \<le> 1" "length (open_handles t) \<le> 1" for t
    by (simp_all add: live_handles_def open_handles_def split: option.split)
  moreover have "live_handles (final gs init) = []"
    by (simp add: live_handles_def final_init_appSocket)
  ultimately show ?thesis
    using final_appSocket_cases [of gs s] by simp
qed

text \<open>
  Claim C10: from every state, \<^verbatim>\<open>onPageShow\<close> run on two events that differ in
  \<^verbatim>\<open>persisted\<close> completes alike, leaves the same \<^verbatim>\<open>appSocket\<close> and makes the same calls on
  the connection; the same holds for \<^verbatim>\<open>onPageHide\<close>. Only console output can differ.
\<close>

theorem persisted_only_logged:
  "fst (onPageShow e1 s) = fst (onPageShow e2 s)
   \<and> appSocket (snd (onPageShow e1 s)) = appSocket (snd (onPageShow e2 s))
   \<and> socket_calls (effects (snd (onPageShow e1 s))) = socket_calls (effects (snd (onPageShow e2 s)))
   \<and> open_calls (produced [Pageshow e1] s) = open_calls (produced [Pageshow e2] s)
   \<and> fst (onPageHide e1 s) = fst (onPageHide e2 s)
   \<and> appSocket (snd (onPageHide e1 s)) = appSocket (snd (onPageHide e2 s))
   \<and> socket_calls (effects (snd (onPageHide e1 s))) = socket_calls (effects (snd (onPageHide e2 s)))
   \<and> close_calls (produced [Pagehide e1] s) = close_calls (produced [Pagehide e2] s)"
  by (simp add: produced_def final_Cons final_Nil handler_eqs socket_calls_append split: option.split)

end
